theory Spec2Isabelle
  imports Complex_Main "HOL-Library.Multiset"
begin

section \<open>JavaScript numbers\<close>

text \<open>
  The pricing utility computes with JavaScript numbers. The embedding keeps them exact:
  a money amount is a rational, a count of units is an integer, and no rounding of
  IEEE doubles is modelled. The source checks no sign, so prices, batch sizes and
  quantities may be negative. The only operation of the source that leaves the finite
  numbers on finite operands is the division \<open>total / quantity\<close>, whose result is
  therefore a \<open>jsnum\<close>: dividing by zero gives \<open>NaN\<close> or an infinity, as in JavaScript.
\<close>

datatype jsnum = Finite rat | NaN | PosInfinity | NegInfinity

definition js_divide :: "rat \<Rightarrow> rat \<Rightarrow> jsnum" where
  "js_divide a b =
     (if b \<noteq> 0 then Finite (a / b)
      else if a = 0 then NaN
      else if 0 < a then PosInfinity
      else NegInfinity)"

text \<open>\<open>Math.floor\<close> and \<open>Math.round\<close> (half-way cases go up) on an exact number.\<close>

definition Math_floor :: "rat \<Rightarrow> int" where
  "Math_floor x = \<lfloor>x\<rfloor>"


text \<open>
  The operator \<open>%\<close> on integers: the remainder of the division that truncates towards
  zero, so the result has the sign of the dividend. JavaScript gives \<open>NaN\<close> for a zero
  divisor; \<open>calculateOfferPricing\<close> reaches \<open>%\<close> only behind the guard \<open>!batchSize\<close>,
  that is with a divisor other than zero.
\<close>

definition js_rem :: "int \<Rightarrow> int \<Rightarrow> int" where
  "js_rem a b = sgn a * (\<bar>a\<bar> mod \<bar>b\<bar>)"

text \<open>
  \<open>parseFloat(v) || 0\<close>: a field holds \<open>Some r\<close> when \<open>parseFloat\<close> reads the finite
  number \<open>r\<close> from it and \<open>None\<close> when it reads no number (the field is missing, null
  or not numeric, and \<open>parseFloat\<close> gives \<open>NaN\<close>). \<open>NaN\<close> and \<open>0\<close> are both falsy, so
  \<open>|| 0\<close> turns both into \<open>0\<close>.
\<close>

definition parseFloat_or_zero :: "rat option \<Rightarrow> rat" where
  "parseFloat_or_zero v = (case v of None \<Rightarrow> 0 | Some r \<Rightarrow> r)"


section \<open>Data model\<close>

text \<open>
  \<open>product.specialOffer\<close> with its two fields; the batch size \<open>quantity\<close> is read as it
  is (\<open>None\<close>: the field is missing), the offer price goes through \<open>parseFloat\<close>.
\<close>

record special_offer =
  so_quantity :: "int option"
  so_offerPricePerUnit :: "rat option"

record product =
  price :: "rat option"
  specialOffer :: "special_offer option"

text \<open>One entry of the list \<open>breakdown\<close>.\<close>

record breakdown_entry =
  bd_type :: string
  bd_quantity :: int
  pricePerUnit :: rat
  bd_total :: rat

text \<open>The object returned by \<open>calculateOfferPricing\<close>.\<close>

record pricing_result =
  subtotal :: rat
  discount :: rat
  pr_total :: rat
  itemsAtOfferPrice :: int
  itemsAtRegularPrice :: int
  effectivePricePerUnit :: jsnum
  breakdown :: "breakdown_entry list"

text \<open>
  A cart item is handed to \<open>calculateOfferPricing\<close> as the product itself
  (\<open>calculateOfferPricing(item, item.quantity, item.offerType)\<close>): it carries the
  product's fields beside its own \<open>quantity\<close> and \<open>offerType\<close>. \<open>offerType\<close> is \<open>None\<close>
  when the item has no such field.
\<close>

record cart_item = product +
  quantity :: int
  offerType :: "string option"

text \<open>\<open>{...item, pricing}\<close>: the fields of the item and the new field \<open>pricing\<close>.\<close>

record priced_item = cart_item +
  pricing :: pricing_result

text \<open>The object returned by \<open>calculateCartTotal\<close>.\<close>

record cart_result =
  cart_subtotal :: rat
  cart_discount :: rat
  cart_total :: rat
  cart_items :: "priced_item list"


section \<open>calculateOfferPricing\<close>

text \<open>Lines 14 to 16: the three coerced inputs.\<close>

definition regularPrice :: "'a product_scheme \<Rightarrow> rat" where
  "regularPrice p = parseFloat_or_zero (price p)"

definition batchSize :: "'a product_scheme \<Rightarrow> int" where
  "batchSize p =
     (case specialOffer p of
        None \<Rightarrow> 0
      | Some so \<Rightarrow> (case so_quantity so of None \<Rightarrow> 0 | Some n \<Rightarrow> n))"

definition offerPricePerUnit :: "'a product_scheme \<Rightarrow> rat" where
  "offerPricePerUnit p =
     parseFloat_or_zero
       (case specialOffer p of None \<Rightarrow> None | Some so \<Rightarrow> so_offerPricePerUnit so)"

text \<open>
  The default parameter \<open>offerType = 'regular'\<close>: an argument that is not passed
  (\<open>None\<close>) is replaced by the default.
\<close>

definition offerType_param :: "string option \<Rightarrow> string" where
  "offerType_param a = (case a of None \<Rightarrow> ''regular'' | Some t \<Rightarrow> t)"

text \<open>Line 19: the condition of the early return.\<close>

definition no_offer :: "'a product_scheme \<Rightarrow> string \<Rightarrow> bool" where
  "no_offer p t \<longleftrightarrow>
     specialOffer p = None \<or> batchSize p = 0 \<or> offerPricePerUnit p = 0 \<or> t = ''regular''"

text \<open>Lines 20 to 28: the object of the early return.\<close>

definition flatPricing :: "rat \<Rightarrow> int \<Rightarrow> pricing_result" where
  "flatPricing rp qty =
     \<lparr> subtotal = rp * of_int qty,
       discount = 0,
       pr_total = rp * of_int qty,
       itemsAtOfferPrice = 0,
       itemsAtRegularPrice = qty,
       effectivePricePerUnit = Finite rp,
       breakdown = [] \<rparr>"

text \<open>Lines 32 and 33.\<close>

definition fullBatches :: "int \<Rightarrow> int \<Rightarrow> int" where
  "fullBatches qty bs = Math_floor (of_int qty / of_int bs)"

definition remainingItems :: "int \<Rightarrow> int \<Rightarrow> int" where
  "remainingItems qty bs = js_rem qty bs"

text \<open>
  Lines 35 to 66: the batch computation and the object it returns. The locals
  \<open>itemsAtOfferPrice\<close>, \<open>itemsAtRegularPrice\<close>, \<open>total\<close>, \<open>subtotal\<close> and \<open>discount\<close> of
  the source are \<open>atOffer\<close>, \<open>atRegular\<close>, \<open>tot\<close>, \<open>sub\<close> and \<open>disc\<close> here, apart from the
  fields of the same names.
\<close>

definition batchPricing :: "rat \<Rightarrow> int \<Rightarrow> rat \<Rightarrow> int \<Rightarrow> pricing_result" where
  "batchPricing rp bs opu qty =
     (let atOffer = fullBatches qty bs * bs;
          atRegular = remainingItems qty bs;
          offerTotal = of_int atOffer * opu;
          regularTotal = of_int atRegular * rp;
          tot = offerTotal + regularTotal;
          sub = of_int qty * rp;
          disc = sub - tot
      in \<lparr> subtotal = sub,
           discount = disc,
           pr_total = tot,
           itemsAtOfferPrice = atOffer,
           itemsAtRegularPrice = atRegular,
           effectivePricePerUnit = js_divide tot (of_int qty),
           breakdown =
             (if 0 < atOffer
              then [\<lparr> bd_type = ''offer'', bd_quantity = atOffer,
                      pricePerUnit = opu, bd_total = offerTotal \<rparr>]
              else []) @
             (if 0 < atRegular
              then [\<lparr> bd_type = ''regular'', bd_quantity = atRegular,
                      pricePerUnit = rp, bd_total = regularTotal \<rparr>]
              else []) \<rparr>)"

definition calculateOfferPricing ::
    "'a product_scheme \<Rightarrow> int \<Rightarrow> string option \<Rightarrow> pricing_result" where
  "calculateOfferPricing p qty a =
     (if no_offer p (offerType_param a)
      then flatPricing (regularPrice p) qty
      else batchPricing (regularPrice p) (batchSize p) (offerPricePerUnit p) qty)"


section \<open>calculateCartTotal\<close>

text \<open>
  The three running totals and the array that \<open>map\<close> builds; the callback of \<open>map\<close>
  is one step on this state, taken for each item from left to right.
\<close>

record cart_state =
  totalSubtotal :: rat
  totalDiscount :: rat
  totalAmount :: rat
  itemBreakdowns :: "priced_item list"

definition with_pricing :: "cart_item \<Rightarrow> pricing_result \<Rightarrow> priced_item" where
  "with_pricing item pr =
     \<lparr> price = price item, specialOffer = specialOffer item,
       quantity = quantity item, offerType = offerType item,
       pricing = pr \<rparr>"

definition cart_step :: "cart_state \<Rightarrow> cart_item \<Rightarrow> cart_state" where
  "cart_step s item =
     (let pr = calculateOfferPricing item (quantity item) (offerType item)
      in \<lparr> totalSubtotal = totalSubtotal s + subtotal pr,
           totalDiscount = totalDiscount s + discount pr,
           totalAmount = totalAmount s + pr_total pr,
           itemBreakdowns = itemBreakdowns s @ [with_pricing item pr] \<rparr>)"

definition calculateCartTotal :: "cart_item list \<Rightarrow> cart_result" where
  "calculateCartTotal cartItems =
     (let s = foldl cart_step
                \<lparr> totalSubtotal = 0, totalDiscount = 0, totalAmount = 0,
                  itemBreakdowns = [] \<rparr> cartItems
      in \<lparr> cart_subtotal = totalSubtotal s,
           cart_discount = totalDiscount s,
           cart_total = totalAmount s,
           cart_items = itemBreakdowns s \<rparr>)"


section \<open>formatDiscount\<close>







section \<open>The eligibility rule in the words of the specification\<close>

text \<open>
  The specification activates batch pricing when a special offer is present, the batch
  size is greater than zero, the offer price per unit is greater than zero and the
  offer type is \<open>bulk\<close>. This predicate follows those words; \<open>no_offer\<close> above is the
  condition of the source.
\<close>

definition spec_eligible :: "'a product_scheme \<Rightarrow> string \<Rightarrow> bool" where
  "spec_eligible p t \<longleftrightarrow>
     specialOffer p \<noteq> None \<and> 0 < batchSize p \<and> 0 < offerPricePerUnit p \<and> t = ''bulk''"


section \<open>Concrete inputs\<close>

text \<open>The product of the specification's scenario: price 100, batches of 3 at 250.\<close>

definition scenario_product :: product where
  "scenario_product =
     \<lparr> price = Some 100,
       specialOffer = Some \<lparr> so_quantity = Some 3, so_offerPricePerUnit = Some 250 \<rparr> \<rparr>"

text \<open>The same product with an offer price per unit below zero.\<close>

definition negative_price_product :: product where
  "negative_price_product =
     \<lparr> price = Some 100,
       specialOffer = Some \<lparr> so_quantity = Some 3, so_offerPricePerUnit = Some (- 1) \<rparr> \<rparr>"

text \<open>The same product with a batch size below zero.\<close>

definition negative_batch_product :: product where
  "negative_batch_product =
     \<lparr> price = Some 100,
       specialOffer = Some \<lparr> so_quantity = Some (- 3), so_offerPricePerUnit = Some 250 \<rparr> \<rparr>"




section \<open>Evaluation lemmas\<close>

text \<open>
  \<open>Math.floor\<close> of the exact quotient of two integers is the floor division of HOL, and
  \<open>%\<close> is \<open>mod\<close> when neither operand is negative.
\<close>

lemma fullBatches_div: "fullBatches q b = q div b"
  by (simp add: fullBatches_def Math_floor_def floor_divide_of_int_eq)

lemma remainingItems_mod: "0 \<le> q \<Longrightarrow> 0 \<le> b \<Longrightarrow> remainingItems q b = q mod b"
  by (cases "q = 0") (simp_all add: remainingItems_def js_rem_def)

lemma pricing_flat:
  "no_offer p (offerType_param a) \<Longrightarrow>
   calculateOfferPricing p q a = flatPricing (regularPrice p) q"
  by (simp add: calculateOfferPricing_def)

lemma pricing_batch:
  "\<not> no_offer p (offerType_param a) \<Longrightarrow>
   calculateOfferPricing p q a =
     batchPricing (regularPrice p) (batchSize p) (offerPricePerUnit p) q"
  by (simp add: calculateOfferPricing_def)

lemmas pricing_eval =
  calculateOfferPricing_def no_offer_def batchSize_def offerPricePerUnit_def
  regularPrice_def parseFloat_or_zero_def offerType_param_def batchPricing_def
  flatPricing_def fullBatches_div remainingItems_def js_rem_def js_divide_def Let_def

lemma scenario_inputs:
  "regularPrice scenario_product = 100"
  "batchSize scenario_product = 3"
  "offerPricePerUnit scenario_product = 250"
  "specialOffer scenario_product \<noteq> None"
  by (simp_all add: scenario_product_def regularPrice_def batchSize_def
      offerPricePerUnit_def parseFloat_or_zero_def)


section \<open>The mode of calculateOfferPricing\<close>

text \<open>
  Claim C1, as stated, fails. The claim lets batch pricing apply only when the batch
  size and the offer price per unit are greater than zero, and promises the flat result
  otherwise. The source tests both for truthiness, which a negative number passes. For
  three units of a product with batches of 3 at an offer price of \<open>-1\<close>, and for seven
  units of a product with batches of \<open>-3\<close>, the rule of the specification is not met,
  yet the result is the batch computation: total and subtotal differ, the discount is
  not zero and the breakdown is not empty.
\<close>

theorem pricing_mode_positive_only_counterexample:
  "\<not> spec_eligible negative_price_product ''bulk'' \<and>
   calculateOfferPricing negative_price_product 3 (Some ''bulk'') =
     \<lparr> subtotal = 300, discount = 303, pr_total = - 3, itemsAtOfferPrice = 3,
       itemsAtRegularPrice = 0, effectivePricePerUnit = Finite (- 1),
       breakdown =
         [\<lparr> bd_type = ''offer'', bd_quantity = 3, pricePerUnit = - 1, bd_total = - 3 \<rparr>] \<rparr> \<and>
   \<not> spec_eligible negative_batch_product ''bulk'' \<and>
   calculateOfferPricing negative_batch_product 7 (Some ''bulk'') =
     \<lparr> subtotal = 700, discount = - 1650, pr_total = 2350, itemsAtOfferPrice = 9,
       itemsAtRegularPrice = 1, effectivePricePerUnit = Finite (2350 / 7),
       breakdown =
         [\<lparr> bd_type = ''offer'', bd_quantity = 9, pricePerUnit = 250, bd_total = 2250 \<rparr>,
          \<lparr> bd_type = ''regular'', bd_quantity = 1, pricePerUnit = 100, bd_total = 100 \<rparr>] \<rparr>"
  by (simp add: spec_eligible_def negative_price_product_def negative_batch_product_def
      pricing_eval)

text \<open>
  Claim C1, amended: for every product, every quantity and an offer type that is
  \<open>regular\<close> or \<open>bulk\<close>, \<open>calculateOfferPricing\<close> applies batch pricing if and only if the
  special offer is present, its batch size is not zero, its offer price per unit is
  not zero and the offer type is \<open>bulk\<close>; in every other case it returns the flat
  result: total and subtotal are price times quantity, the discount is 0, all units are
  counted in \<open>itemsAtRegularPrice\<close> and the breakdown is empty.
\<close>

theorem pricing_mode_by_truthiness:
  assumes "t = ''regular'' \<or> t = ''bulk''"
  shows "(\<not> no_offer p (offerType_param (Some t)) \<longleftrightarrow>
            specialOffer p \<noteq> None \<and> batchSize p \<noteq> 0 \<and> offerPricePerUnit p \<noteq> 0 \<and>
            t = ''bulk'') \<and>
         (if specialOffer p \<noteq> None \<and> batchSize p \<noteq> 0 \<and> offerPricePerUnit p \<noteq> 0 \<and>
             t = ''bulk''
          then calculateOfferPricing p q (Some t) =
                 batchPricing (regularPrice p) (batchSize p) (offerPricePerUnit p) q
          else calculateOfferPricing p q (Some t) = flatPricing (regularPrice p) q \<and>
               pr_total (calculateOfferPricing p q (Some t)) = regularPrice p * of_int q \<and>
               subtotal (calculateOfferPricing p q (Some t)) = regularPrice p * of_int q \<and>
               discount (calculateOfferPricing p q (Some t)) = 0 \<and>
               itemsAtOfferPrice (calculateOfferPricing p q (Some t)) = 0 \<and>
               itemsAtRegularPrice (calculateOfferPricing p q (Some t)) = q \<and>
               breakdown (calculateOfferPricing p q (Some t)) = [])"
  using assms
  by (auto simp add: calculateOfferPricing_def no_offer_def offerType_param_def
      flatPricing_def)

text \<open>
  The amended rule at work: seven units of the scenario product, once as \<open>bulk\<close> (the
  batch computation) and once as \<open>regular\<close> (the flat result).
\<close>

theorem pricing_mode_by_truthiness_witness:
  "(''bulk'' = ''regular'' \<or> ''bulk'' = ''bulk'') \<and>
   calculateOfferPricing scenario_product 7 (Some ''bulk'') = batchPricing 100 3 250 7 \<and>
   (''regular'' = ''regular'' \<or> ''regular'' = ''bulk'') \<and>
   calculateOfferPricing scenario_product 7 (Some ''regular'') = flatPricing 100 7 \<and>
   pr_total (calculateOfferPricing scenario_product 7 (Some ''regular'')) = 700 \<and>
   breakdown (calculateOfferPricing scenario_product 7 (Some ''regular'')) = []"
  using pricing_mode_by_truthiness [of "''bulk''" scenario_product 7]
    pricing_mode_by_truthiness [of "''regular''" scenario_product 7]
  by (simp add: scenario_inputs flatPricing_def)


section \<open>The batch computation\<close>

text \<open>
  Claim C2: when batch pricing applies, for a quantity that is not negative and a
  positive batch size, \<open>fullBatches\<close> is the floor of quantity by batch size,
  the remainder is quantity modulo batch size, \<open>itemsAtOfferPrice\<close> is the full batches
  times the batch size, \<open>itemsAtRegularPrice\<close> is the remainder, the total is the offer
  units at the offer price plus the remaining units at the regular price, the subtotal
  is quantity times regular price and the discount is subtotal minus total.
\<close>

theorem batch_pricing_formulas:
  assumes "\<not> no_offer p (offerType_param a)" and "0 \<le> q" and "0 < batchSize p"
    and "r = calculateOfferPricing p q a"
  shows "fullBatches q (batchSize p) = q div batchSize p \<and>
         remainingItems q (batchSize p) = q mod batchSize p \<and>
         itemsAtOfferPrice r = (q div batchSize p) * batchSize p \<and>
         itemsAtRegularPrice r = q mod batchSize p \<and>
         pr_total r = of_int (itemsAtOfferPrice r) * offerPricePerUnit p
                      + of_int (itemsAtRegularPrice r) * regularPrice p \<and>
         subtotal r = of_int q * regularPrice p \<and>
         discount r = subtotal r - pr_total r"
proof -
  have r: "r = batchPricing (regularPrice p) (batchSize p) (offerPricePerUnit p) q"
    using assms(1,4) by (simp add: pricing_batch)
  have fb: "fullBatches q (batchSize p) = q div batchSize p"
    by (rule fullBatches_div)
  have ri: "remainingItems q (batchSize p) = q mod batchSize p"
    using assms(2,3) by (simp add: remainingItems_mod)
  show ?thesis
    unfolding r by (simp add: batchPricing_def Let_def fb ri)
qed

text \<open>Seven units of the scenario product: two full batches of three and one unit left.\<close>

theorem batch_pricing_formulas_witness:
  "\<not> no_offer scenario_product (offerType_param (Some ''bulk'')) \<and>
   (0::int) \<le> 7 \<and> 0 < batchSize scenario_product \<and>
   fullBatches 7 3 = 2 \<and> remainingItems 7 3 = 1 \<and>
   itemsAtOfferPrice (calculateOfferPricing scenario_product 7 (Some ''bulk'')) = 6 \<and>
   itemsAtRegularPrice (calculateOfferPricing scenario_product 7 (Some ''bulk'')) = 1 \<and>
   subtotal (calculateOfferPricing scenario_product 7 (Some ''bulk'')) = 700"
proof -
  have h1: "\<not> no_offer scenario_product (offerType_param (Some ''bulk''))"
    by (simp add: no_offer_def scenario_inputs offerType_param_def)
  have h2: "(0::int) \<le> 7" by simp
  have h3: "0 < batchSize scenario_product" by (simp add: scenario_inputs)
  from batch_pricing_formulas [OF h1 h2 h3 refl] h1 h2 h3 show ?thesis
    by (simp add: scenario_inputs)
qed

text \<open>
  Claim C3, as stated, fails for a product whose batch size is negative: \<open>Math.floor\<close>
  rounds the negative quotient down while \<open>%\<close> truncates, so for seven units and
  batches of \<open>-3\<close> the two counts are 9 and 1, which do not add up to 7.
\<close>

theorem unit_split_negative_batch_counterexample:
  "(0::int) \<le> 7 \<and>
   itemsAtOfferPrice (calculateOfferPricing negative_batch_product 7 (Some ''bulk'')) = 9 \<and>
   itemsAtRegularPrice (calculateOfferPricing negative_batch_product 7 (Some ''bulk'')) = 1 \<and>
   itemsAtOfferPrice (calculateOfferPricing negative_batch_product 7 (Some ''bulk'')) +
   itemsAtRegularPrice (calculateOfferPricing negative_batch_product 7 (Some ''bulk'')) \<noteq> 7"
  by (simp add: negative_batch_product_def pricing_eval)

text \<open>
  Claim C3, amended: for every quantity \<open>q\<close> that is not negative, every offer type and
  every product whose batch size is not negative, \<open>itemsAtOfferPrice\<close> and
  \<open>itemsAtRegularPrice\<close> add up to \<open>q\<close>; and when batch pricing applies with a batch
  size \<open>b > 0\<close>, \<open>itemsAtOfferPrice\<close> is a multiple of \<open>b\<close>.
\<close>

theorem unit_split_nonnegative_batch:
  assumes "0 \<le> q" and "0 \<le> batchSize p" and "r = calculateOfferPricing p q a"
  shows "itemsAtOfferPrice r + itemsAtRegularPrice r = q \<and>
         (if \<not> no_offer p (offerType_param a) \<and> 0 < batchSize p
          then itemsAtOfferPrice r mod batchSize p = 0 else True)"
proof (cases "no_offer p (offerType_param a)")
  case True
  then show ?thesis
    using assms(3) by (simp add: pricing_flat flatPricing_def)
next
  case False
  then have r: "r = batchPricing (regularPrice p) (batchSize p) (offerPricePerUnit p) q"
    using assms(3) by (simp add: pricing_batch)
  have ri: "remainingItems q (batchSize p) = q mod batchSize p"
    using assms(1,2) by (rule remainingItems_mod)
  show ?thesis
    unfolding r by (simp add: batchPricing_def Let_def fullBatches_div ri)
qed

theorem unit_split_nonnegative_batch_witness:
  "(0::int) \<le> 7 \<and> 0 \<le> batchSize scenario_product \<and>
   \<not> no_offer scenario_product (offerType_param (Some ''bulk'')) \<and>
   0 < batchSize scenario_product \<and>
   itemsAtOfferPrice (calculateOfferPricing scenario_product 7 (Some ''bulk'')) +
   itemsAtRegularPrice (calculateOfferPricing scenario_product 7 (Some ''bulk'')) = 7 \<and>
   itemsAtOfferPrice (calculateOfferPricing scenario_product 7 (Some ''bulk'')) mod 3 = 0"
proof -
  have h1: "(0::int) \<le> 7" by simp
  have h2: "0 \<le> batchSize scenario_product" by (simp add: scenario_inputs)
  have h3: "\<not> no_offer scenario_product (offerType_param (Some ''bulk''))"
    by (simp add: no_offer_def scenario_inputs offerType_param_def)
  from unit_split_nonnegative_batch [OF h1 h2 refl, of "Some ''bulk''"] h1 h2 h3
  show ?thesis
    by (simp add: scenario_inputs)
qed


section \<open>The scenario of the specification\<close>

text \<open>
  Claim C5, as stated, fails. For price 100, batches of 3 at an offer price per unit of
  250, seven units and offer type \<open>bulk\<close>, the source multiplies the six offer units by
  250: the total is not 600, the discount is not 100, and the totals of the two
  entries of the breakdown are not 500 and 100.
\<close>

theorem scenario_seven_units_counterexample:
  "pr_total (calculateOfferPricing scenario_product 7 (Some ''bulk'')) \<noteq> 600 \<and>
   discount (calculateOfferPricing scenario_product 7 (Some ''bulk'')) \<noteq> 100 \<and>
   map bd_total (breakdown (calculateOfferPricing scenario_product 7 (Some ''bulk''))) \<noteq>
     [500, 100]"
  by (simp add: scenario_product_def pricing_eval)

text \<open>
  Claim C5, amended: for that input \<open>fullBatches\<close> is 2, the remainder is 1,
  \<open>itemsAtOfferPrice\<close> is 6, \<open>itemsAtRegularPrice\<close> is 1, the offer total is 1500, the
  regular total is 100, the total is 1600, the subtotal is 700 and the discount is
  \<open>-900\<close>. The offer total and the regular total are the totals of the two entries of
  the breakdown.
\<close>

theorem scenario_seven_units:
  "fullBatches 7 3 = 2 \<and> remainingItems 7 3 = 1 \<and>
   calculateOfferPricing scenario_product 7 (Some ''bulk'') =
     \<lparr> subtotal = 700, discount = - 900, pr_total = 1600, itemsAtOfferPrice = 6,
       itemsAtRegularPrice = 1, effectivePricePerUnit = Finite (1600 / 7),
       breakdown =
         [\<lparr> bd_type = ''offer'', bd_quantity = 6, pricePerUnit = 250, bd_total = 1500 \<rparr>,
          \<lparr> bd_type = ''regular'', bd_quantity = 1, pricePerUnit = 100, bd_total = 100 \<rparr>] \<rparr>"
  by (simp add: scenario_product_def pricing_eval)


section \<open>The cart\<close>

text \<open>The loop of \<open>calculateCartTotal\<close>: what one step and what all steps do to the state.\<close>

lemma cart_step_fields:
  "totalSubtotal (cart_step s i) =
     totalSubtotal s + subtotal (calculateOfferPricing i (quantity i) (offerType i))"
  "totalDiscount (cart_step s i) =
     totalDiscount s + discount (calculateOfferPricing i (quantity i) (offerType i))"
  "totalAmount (cart_step s i) =
     totalAmount s + pr_total (calculateOfferPricing i (quantity i) (offerType i))"
  "itemBreakdowns (cart_step s i) =
     itemBreakdowns s @ [with_pricing i (calculateOfferPricing i (quantity i) (offerType i))]"
  by (simp_all add: cart_step_def Let_def)

lemma cart_loop:
  "foldl cart_step s xs =
     \<lparr> totalSubtotal = totalSubtotal s +
         (\<Sum>i\<leftarrow>xs. subtotal (calculateOfferPricing i (quantity i) (offerType i))),
       totalDiscount = totalDiscount s +
         (\<Sum>i\<leftarrow>xs. discount (calculateOfferPricing i (quantity i) (offerType i))),
       totalAmount = totalAmount s +
         (\<Sum>i\<leftarrow>xs. pr_total (calculateOfferPricing i (quantity i) (offerType i))),
       itemBreakdowns = itemBreakdowns s @
         map (\<lambda>i. with_pricing i (calculateOfferPricing i (quantity i) (offerType i))) xs \<rparr>"
  by (induction xs arbitrary: s) (simp_all add: cart_step_fields add.assoc)

lemma cart_fields:
  "cart_subtotal (calculateCartTotal xs) =
     (\<Sum>i\<leftarrow>xs. subtotal (calculateOfferPricing i (quantity i) (offerType i)))"
  "cart_discount (calculateCartTotal xs) =
     (\<Sum>i\<leftarrow>xs. discount (calculateOfferPricing i (quantity i) (offerType i)))"
  "cart_total (calculateCartTotal xs) =
     (\<Sum>i\<leftarrow>xs. pr_total (calculateOfferPricing i (quantity i) (offerType i)))"
  "cart_items (calculateCartTotal xs) =
     map (\<lambda>i. with_pricing i (calculateOfferPricing i (quantity i) (offerType i))) xs"
  by (simp_all add: calculateCartTotal_def Let_def cart_loop)

lemma pricing_with_pricing: "pricing (with_pricing i pr) = pr"
  by (simp add: with_pricing_def)

lemma truncate_with_pricing: "cart_item.truncate (with_pricing i pr) = i"
  by (simp add: with_pricing_def cart_item.truncate_def)

text \<open>\<open>calculateOfferPricing\<close> reads the product's fields of a cart item and nothing else.\<close>

lemma pricing_truncate:
  "calculateOfferPricing (product.truncate i) q a = calculateOfferPricing i q a"
  by (simp add: calculateOfferPricing_def no_offer_def regularPrice_def batchSize_def
      offerPricePerUnit_def product.truncate_def)




text \<open>
  Claim C6: the pricing result of each entry is \<open>calculateOfferPricing\<close> applied to the
  product carried by the entry (its fields \<open>price\<close> and \<open>specialOffer\<close>), the entry's
  quantity and the entry's offer type; each returned item is the entry's fields with
  the field \<open>pricing\<close> added, in the order of the input. The entries are values of the
  embedding: the source assigns to no field of an entry (its only writes go to the
  three running totals), and the returned items, cut back to the fields of an entry,
  are the entries that came in.
\<close>

theorem cart_items_priced_in_order:
  "cart_items (calculateCartTotal xs) =
     map (\<lambda>i. with_pricing i
                 (calculateOfferPricing (product.truncate i) (quantity i) (offerType i))) xs \<and>
   map pricing (cart_items (calculateCartTotal xs)) =
     map (\<lambda>i. calculateOfferPricing (product.truncate i) (quantity i) (offerType i)) xs \<and>
   map cart_item.truncate (cart_items (calculateCartTotal xs)) = xs"
  by (simp add: cart_fields pricing_truncate comp_def pricing_with_pricing
      truncate_with_pricing)


section \<open>The breakdown\<close>

text \<open>
  Claim C7: for every input the breakdown has at most two entries (each with the
  fields type, quantity, price per unit and total); no entry has the quantity 0, every
  entry that is listed has a positive quantity; and the types of the entries, in order,
  are nothing, \<open>offer\<close>, \<open>regular\<close>, or \<open>offer\<close> before \<open>regular\<close>. In flat mode the
  breakdown is empty; in batch mode it is the offer entry followed by the regular
  entry, each left out when its quantity is not positive.
\<close>

theorem breakdown_shape:
  "length (breakdown (calculateOfferPricing p q a)) \<le> 2 \<and>
   (\<forall>e \<in> set (breakdown (calculateOfferPricing p q a)). 0 < bd_quantity e) \<and>
   map bd_type (breakdown (calculateOfferPricing p q a)) \<in>
     {[], [''offer''], [''regular''], [''offer'', ''regular'']} \<and>
   breakdown (calculateOfferPricing p q a) =
     (if no_offer p (offerType_param a) then []
      else filter (\<lambda>e. 0 < bd_quantity e)
             [\<lparr> bd_type = ''offer'',
                bd_quantity = itemsAtOfferPrice (calculateOfferPricing p q a),
                pricePerUnit = offerPricePerUnit p,
                bd_total = of_int (itemsAtOfferPrice (calculateOfferPricing p q a)) *
                           offerPricePerUnit p \<rparr>,
              \<lparr> bd_type = ''regular'',
                bd_quantity = itemsAtRegularPrice (calculateOfferPricing p q a),
                pricePerUnit = regularPrice p,
                bd_total = of_int (itemsAtRegularPrice (calculateOfferPricing p q a)) *
                           regularPrice p \<rparr>])"
  by (simp add: calculateOfferPricing_def flatPricing_def batchPricing_def Let_def)

text \<open>Seven units of the scenario product: the offer entry of six units is listed.\<close>

theorem breakdown_shape_witness:
  "\<lparr> bd_type = ''offer'', bd_quantity = 6, pricePerUnit = 250, bd_total = 1500 \<rparr>
     \<in> set (breakdown (calculateOfferPricing scenario_product 7 (Some ''bulk''))) \<and>
   0 < bd_quantity
         \<lparr> bd_type = ''offer'', bd_quantity = 6, pricePerUnit = 250, bd_total = 1500 \<rparr> \<and>
   length (breakdown (calculateOfferPricing scenario_product 7 (Some ''bulk''))) \<le> 2"
proof -
  have h: "\<lparr> bd_type = ''offer'', bd_quantity = 6, pricePerUnit = 250, bd_total = 1500 \<rparr>
     \<in> set (breakdown (calculateOfferPricing scenario_product 7 (Some ''bulk'')))"
    by (simp add: scenario_product_def pricing_eval)
  from breakdown_shape [of scenario_product 7 "Some ''bulk''"] h show ?thesis
    by blast
qed


section \<open>The discount label\<close>






section \<open>The effective price per unit\<close>

text \<open>
  Claim C9: in flat mode \<open>effectivePricePerUnit\<close> is the regular price for every
  quantity, the quantity 0 included. In batch mode it is the division of the total by
  the quantity, with no guard: for a quantity other than 0 it is the finite quotient
  of the total by the quantity; for the quantity 0 the total is 0 and the result is
  that of \<open>0 / 0\<close>, which is \<open>NaN\<close>: no finite number, and not 0.
\<close>

theorem effective_price_per_unit:
  "(if no_offer p (offerType_param a)
    then effectivePricePerUnit (calculateOfferPricing p q a) = Finite (regularPrice p) \<and>
         effectivePricePerUnit (calculateOfferPricing p 0 a) = Finite (regularPrice p)
    else effectivePricePerUnit (calculateOfferPricing p q a) =
           js_divide (pr_total (calculateOfferPricing p q a)) (of_int q) \<and>
         effectivePricePerUnit (calculateOfferPricing p q a) =
           (if q = 0 then NaN
            else Finite (pr_total (calculateOfferPricing p q a) / of_int q)) \<and>
         pr_total (calculateOfferPricing p q a) =
           of_int (fullBatches q (batchSize p) * batchSize p) * offerPricePerUnit p +
           of_int (remainingItems q (batchSize p)) * regularPrice p \<and>
         pr_total (calculateOfferPricing p 0 a) = 0 \<and>
         effectivePricePerUnit (calculateOfferPricing p 0 a) = js_divide 0 0 \<and>
         js_divide 0 0 = NaN \<and>
         effectivePricePerUnit (calculateOfferPricing p 0 a) = NaN \<and>
         (\<forall>x. effectivePricePerUnit (calculateOfferPricing p 0 a) \<noteq> Finite x))"
proof (cases "no_offer p (offerType_param a)")
  case True
  then show ?thesis
    by (simp add: pricing_flat flatPricing_def)
next
  case False
  have eff: "effectivePricePerUnit (calculateOfferPricing p k a) =
      js_divide (pr_total (calculateOfferPricing p k a)) (of_int k)" for k
    using False by (simp add: pricing_batch batchPricing_def Let_def)
  have tot: "pr_total (calculateOfferPricing p k a) =
      of_int (fullBatches k (batchSize p) * batchSize p) * offerPricePerUnit p +
      of_int (remainingItems k (batchSize p)) * regularPrice p" for k
    using False by (simp add: pricing_batch batchPricing_def Let_def)
  have zero: "pr_total (calculateOfferPricing p 0 a) = 0"
    by (simp add: tot fullBatches_div remainingItems_def js_rem_def)
  have nan: "js_divide 0 0 = NaN"
    by (simp add: js_divide_def)
  have at_zero: "effectivePricePerUnit (calculateOfferPricing p 0 a) = NaN"
    using eff [of 0] by (simp add: zero nan)
  have at_q: "effectivePricePerUnit (calculateOfferPricing p q a) =
      (if q = 0 then NaN else Finite (pr_total (calculateOfferPricing p q a) / of_int q))"
  proof (cases "q = 0")
    case True
    then show ?thesis by (simp add: at_zero)
  next
    case False
    then show ?thesis by (simp add: eff [of q] js_divide_def)
  qed
  from False eff [of q] at_q tot [of q] zero nan at_zero show ?thesis
    by simp
qed

text \<open>
  The scenario product as \<open>bulk\<close>: \<open>NaN\<close> at quantity 0 and the quotient 1600 / 7 at
  quantity 7; as \<open>regular\<close>, the price 100 at quantity 0.
\<close>

theorem effective_price_per_unit_witness:
  "\<not> no_offer scenario_product (offerType_param (Some ''bulk'')) \<and>
   effectivePricePerUnit (calculateOfferPricing scenario_product 0 (Some ''bulk'')) = NaN \<and>
   pr_total (calculateOfferPricing scenario_product 7 (Some ''bulk'')) = 1600 \<and>
   effectivePricePerUnit (calculateOfferPricing scenario_product 7 (Some ''bulk'')) =
     Finite (1600 / 7) \<and>
   no_offer scenario_product (offerType_param (Some ''regular'')) \<and>
   effectivePricePerUnit (calculateOfferPricing scenario_product 0 (Some ''regular'')) =
     Finite 100"
proof -
  have b: "\<not> no_offer scenario_product (offerType_param (Some ''bulk''))"
    by (simp add: no_offer_def scenario_inputs offerType_param_def)
  have r: "no_offer scenario_product (offerType_param (Some ''regular''))"
    by (simp add: no_offer_def offerType_param_def)
  note at0 = effective_price_per_unit
    [of scenario_product "Some ''bulk''" 0, unfolded if_not_P [OF b]]
  note at7 = effective_price_per_unit
    [of scenario_product "Some ''bulk''" 7, unfolded if_not_P [OF b]]
  note flat = effective_price_per_unit
    [of scenario_product "Some ''regular''" 0, unfolded if_P [OF r]]
  have z: "effectivePricePerUnit (calculateOfferPricing scenario_product 0 (Some ''bulk'')) =
      NaN"
    using at0 by blast
  have t: "pr_total (calculateOfferPricing scenario_product 7 (Some ''bulk'')) = 1600"
    using at7 [THEN conjunct2, THEN conjunct2, THEN conjunct1]
    by (simp add: scenario_inputs fullBatches_div remainingItems_def js_rem_def)
  have e: "effectivePricePerUnit (calculateOfferPricing scenario_product 7 (Some ''bulk'')) =
      Finite (1600 / 7)"
    using at7 [THEN conjunct2, THEN conjunct1] by (simp add: t)
  have f: "effectivePricePerUnit
      (calculateOfferPricing scenario_product 0 (Some ''regular'')) = Finite 100"
    using flat [THEN conjunct1] by (simp add: scenario_inputs)
  from b r z t e f show ?thesis
    by blast
qed


section \<open>Offer types other than regular\<close>

text \<open>
  Claim C10: for a product whose special offer is present with a batch size and an
  offer price per unit greater than zero, \<open>calculateOfferPricing\<close> applies batch pricing
  for every offer type passed that is not the string \<open>regular\<close>, \<open>bulk\<close> or
  not: the guard compares the offer type with \<open>regular\<close> only. The result is the batch
  computation, and it is never the flat result.
\<close>

theorem offer_for_any_type_but_regular:
  assumes "specialOffer p = Some so" and "so_quantity so = Some b" and "0 < b"
    and "so_offerPricePerUnit so = Some u" and "0 < u" and "t \<noteq> ''regular''"
  shows "\<not> no_offer p (offerType_param (Some t)) \<and>
         calculateOfferPricing p q (Some t) = batchPricing (regularPrice p) b u q \<and>
         calculateOfferPricing p q (Some t) \<noteq> flatPricing (regularPrice p) q"
proof -
  have bs: "batchSize p = b" and opu: "offerPricePerUnit p = u"
    using assms by (simp_all add: batchSize_def offerPricePerUnit_def parseFloat_or_zero_def)
  have no: "\<not> no_offer p (offerType_param (Some t))"
    using assms by (simp add: no_offer_def bs opu offerType_param_def)
  then have eq: "calculateOfferPricing p q (Some t) = batchPricing (regularPrice p) b u q"
    by (simp add: pricing_batch bs opu)
  have "itemsAtOfferPrice (batchPricing (regularPrice p) b u q) \<noteq> 0 \<or>
        effectivePricePerUnit (batchPricing (regularPrice p) b u q) = NaN \<or>
        breakdown (batchPricing (regularPrice p) b u q) \<noteq> []"
  proof (cases "q = 0")
    case True
    then show ?thesis
      by (simp add: batchPricing_def Let_def fullBatches_div remainingItems_def js_rem_def
          js_divide_def)
  next
    case False
    show ?thesis
    proof (cases "q div b = 0")
      case True
      with \<open>0 < b\<close> have "0 \<le> q" and "q < b"
        by (auto simp add: zdiv_eq_0_iff)
      with False have "0 < remainingItems q b"
        by (simp add: remainingItems_mod)
      then show ?thesis
        by (simp add: batchPricing_def Let_def)
    next
      case False
      with \<open>0 < b\<close> show ?thesis
        by (simp add: batchPricing_def Let_def fullBatches_div)
    qed
  qed
  then have "batchPricing (regularPrice p) b u q \<noteq> flatPricing (regularPrice p) q"
    by (auto simp add: flatPricing_def)
  with no eq show ?thesis by simp
qed

text \<open>Seven units of the scenario product with the offer type \<open>wholesale\<close>.\<close>

theorem offer_for_any_type_but_regular_witness:
  "specialOffer scenario_product =
     Some \<lparr> so_quantity = Some 3, so_offerPricePerUnit = Some 250 \<rparr> \<and>
   (0::int) < 3 \<and> (0::rat) < 250 \<and> ''wholesale'' \<noteq> ''regular'' \<and>
   calculateOfferPricing scenario_product 7 (Some ''wholesale'') =
     batchPricing 100 3 250 7 \<and>
   pr_total (calculateOfferPricing scenario_product 7 (Some ''wholesale'')) = 1600"
proof -
  have h1: "specialOffer scenario_product =
      Some \<lparr> so_quantity = Some 3, so_offerPricePerUnit = Some 250 \<rparr>"
    by (simp add: scenario_product_def)
  have h2: "so_quantity \<lparr> so_quantity = Some 3, so_offerPricePerUnit = Some 250 \<rparr> = Some 3"
    by simp
  have h3: "(0::int) < 3" by simp
  have h4: "so_offerPricePerUnit \<lparr> so_quantity = Some 3, so_offerPricePerUnit = Some 250 \<rparr> =
      Some 250"
    by simp
  have h5: "(0::rat) < 250" by simp
  have h6: "''wholesale'' \<noteq> ''regular''" by simp
  have v: "pr_total (batchPricing 100 3 250 7) = 1600"
    by (simp add: batchPricing_def Let_def fullBatches_div remainingItems_def js_rem_def)
  from offer_for_any_type_but_regular [OF h1 h2 h3 h4 h5 h6, of 7] h1 h3 h5 h6 v
  show ?thesis
    by (simp add: scenario_inputs)
qed

end
